theory Spec2Isabelle
  imports Complex_Main "HOL-Library.Sublist"
begin

section \<open>Phase timer (src/app/page.tsx)\<close>

text \<open>
  The page component keeps the session clock in three React state cells:
  \<^verbatim>\<open>phase\<close>, \<^verbatim>\<open>timeLeft\<close> and \<^verbatim>\<open>isRunning\<close>.
  \<^verbatim>\<open>type Phase = 'Discovery' | 'Heads-down' | 'Presentation'\<close>.
\<close>

datatype Phase = Discovery | Heads_down | Presentation

text \<open>\<^verbatim>\<open>PHASE_DURATIONS\<close>: 20 * 60, 25 * 60 and 15 * 60 seconds.\<close>

fun PHASE_DURATIONS :: "Phase \<Rightarrow> int" where
  "PHASE_DURATIONS Discovery = 20 * 60"
| "PHASE_DURATIONS Heads_down = 25 * 60"
| "PHASE_DURATIONS Presentation = 15 * 60"

record clock =
  phase :: Phase
  timeLeft :: int
  isRunning :: bool

text \<open>
  The state setters that the timer code calls; \<open>apply_setter\<close> applies one call to the
  clock.
\<close>

datatype setter = SetPhase Phase | SetTimeLeft int | SetIsRunning bool

fun apply_setter :: "setter \<Rightarrow> clock \<Rightarrow> clock" where
  "apply_setter (SetPhase p) s = s\<lparr>phase := p\<rparr>"
| "apply_setter (SetTimeLeft n) s = s\<lparr>timeLeft := n\<rparr>"
| "apply_setter (SetIsRunning b) s = s\<lparr>isRunning := b\<rparr>"

text \<open>
  The function passed to \<^verbatim>\<open>setTimeLeft\<close> by the interval callback. Its first argument is
  the \<^verbatim>\<open>phase\<close> captured by the effect's closure (the effect is re-created whenever
  \<^verbatim>\<open>phase\<close> changes, so it is the current phase), its second is \<^verbatim>\<open>prev\<close>. The result
  is the list of setter calls it makes, in order, and the value it returns.
\<close>

definition timer_updater :: "Phase \<Rightarrow> int \<Rightarrow> setter list \<times> int" where
  "timer_updater ph prev =
     (if prev \<le> 1 then
        (if ph = Discovery then
           ([SetPhase Heads_down, SetTimeLeft (PHASE_DURATIONS Heads_down)], prev)
         else if ph = Heads_down then
           ([SetPhase Presentation, SetTimeLeft (PHASE_DURATIONS Presentation)], prev)
         else ([SetIsRunning False], 0))
      else ([], prev - 1))"

text \<open>
  How React serves the call \<^verbatim>\<open>setTimeLeft(updater)\<close> made by the interval callback. The
  updater of the page is not pure: it calls other setters. The order in which its
  returned value and those calls take effect is React's, and depends on the state of the
  component's update queue when the call is made:

  \<^item> \<open>At_render\<close>: the update is queued and the updater runs when the component next
    renders. The setters it calls are queued behind it: the returned value is applied
    first, the calls after it, in call order.
  \<^item> \<open>Eager\<close>: the component has no pending update when the call is made (as after a
    render that bailed out). React runs the updater inside the call. The setters it calls
    are queued at once; the update itself is queued behind them with the value just
    computed, and that value is applied last.

  The page does not control which of the two happens; it is an input of each tick.
\<close>

datatype dispatch = At_render | Eager

text \<open>
  One firing of the one-second interval. The effect installs the interval only while
  \<^verbatim>\<open>isRunning\<close> holds (\<^verbatim>\<open>if (!isRunning) return\<close>) and its cleanup clears it, so a
  stopped clock does not change.
\<close>

definition tick :: "dispatch \<Rightarrow> clock \<Rightarrow> clock" where
  "tick d s =
     (if \<not> isRunning s then s
      else (case timer_updater (phase s) (timeLeft s) of
              (calls, v) \<Rightarrow>
                (case d of
                   At_render \<Rightarrow> fold apply_setter calls (s\<lparr>timeLeft := v\<rparr>)
                 | Eager \<Rightarrow> (fold apply_setter calls s)\<lparr>timeLeft := v\<rparr>)))"

text \<open>A run of the timer: one dispatch path for each tick, in order.\<close>

definition ticks :: "dispatch list \<Rightarrow> clock \<Rightarrow> clock" where
  "ticks ds s = fold tick ds s"

text \<open>
  The clock once the mount effect has run: \<^verbatim>\<open>useState('Discovery')\<close>,
  \<^verbatim>\<open>useState(PHASE_DURATIONS['Discovery'])\<close> and \<^verbatim>\<open>setIsRunning(true)\<close>.
\<close>

definition initial_clock :: clock where
  "initial_clock = \<lparr>phase = Discovery, timeLeft = PHASE_DURATIONS Discovery, isRunning = True\<rparr>"

text \<open>\<^verbatim>\<open>changePhase\<close>: the handler of the three phase buttons.\<close>

definition changePhase :: "Phase \<Rightarrow> clock \<Rightarrow> clock" where
  "changePhase newPhase s =
     s\<lparr>phase := newPhase, timeLeft := PHASE_DURATIONS newPhase, isRunning := True\<rparr>"

section \<open>Coverage tags (src/app/page.tsx)\<close>

text \<open>
  \<^verbatim>\<open>interface CoverageTags\<close> has seven boolean fields; \<open>tag\<close> names its keys.
\<close>

datatype tag = Framing | Constraints | Users | Ideation | Systems | Metrics | Accessibility

record CoverageTags =
  framing :: bool
  constraints :: bool
  users :: bool
  ideation :: bool
  systems :: bool
  metrics :: bool
  accessibility :: bool

fun get_tag :: "CoverageTags \<Rightarrow> tag \<Rightarrow> bool" where
  "get_tag c Framing = framing c"
| "get_tag c Constraints = constraints c"
| "get_tag c Users = users c"
| "get_tag c Ideation = ideation c"
| "get_tag c Systems = systems c"
| "get_tag c Metrics = metrics c"
| "get_tag c Accessibility = accessibility c"

fun set_tag :: "tag \<Rightarrow> bool \<Rightarrow> CoverageTags \<Rightarrow> CoverageTags" where
  "set_tag Framing b c = c\<lparr>framing := b\<rparr>"
| "set_tag Constraints b c = c\<lparr>constraints := b\<rparr>"
| "set_tag Users b c = c\<lparr>users := b\<rparr>"
| "set_tag Ideation b c = c\<lparr>ideation := b\<rparr>"
| "set_tag Systems b c = c\<lparr>systems := b\<rparr>"
| "set_tag Metrics b c = c\<lparr>metrics := b\<rparr>"
| "set_tag Accessibility b c = c\<lparr>accessibility := b\<rparr>"

text \<open>The state cell's initial value: every flag false.\<close>

definition initial_coverageTags :: CoverageTags where
  "initial_coverageTags =
     \<lparr>framing = False, constraints = False, users = False, ideation = False,
      systems = False, metrics = False, accessibility = False\<rparr>"

text \<open>
  Strings are lists of 8-bit characters. \<^verbatim>\<open>String.prototype.toLowerCase\<close> is modelled on
  ASCII text: the letters A to Z are mapped to a to z and every other character is kept.
\<close>

definition toLowerCase_char :: "char \<Rightarrow> char" where
  "toLowerCase_char c =
     (let n = (of_char c :: nat) in if 65 \<le> n \<and> n \<le> 90 then char_of (n + 32) else c)"

definition toLowerCase :: "string \<Rightarrow> string" where
  "toLowerCase s = map toLowerCase_char s"

text \<open>\<^verbatim>\<open>String.prototype.includes\<close>: the argument occurs somewhere in the string.\<close>

fun starts_with :: "string \<Rightarrow> string \<Rightarrow> bool" where
  "starts_with s [] = True"
| "starts_with [] (k # ks) = False"
| "starts_with (c # cs) (k # ks) = (c = k \<and> starts_with cs ks)"

fun includes_str :: "string \<Rightarrow> string \<Rightarrow> bool" where
  "includes_str [] k = (k = [])"
| "includes_str (c # cs) k = (starts_with (c # cs) k \<or> includes_str cs k)"

text \<open>
  The object \<^verbatim>\<open>updates: Partial<CoverageTags>\<close> that \<^verbatim>\<open>updateCoverageTags\<close> builds, as the
  list of its properties in the order the seven \<^verbatim>\<open>if\<close> statements assign them.
\<close>

definition coverage_updates :: "string \<Rightarrow> (tag \<times> bool) list" where
  "coverage_updates text =
     (let lowerText = toLowerCase text in
        (if includes_str lowerText ''goal'' \<or> includes_str lowerText ''problem''
         then [(Framing, True)] else []) @
        (if includes_str lowerText ''constraint'' \<or> includes_str lowerText ''limit''
         then [(Constraints, True)] else []) @
        (if includes_str lowerText ''user'' \<or> includes_str lowerText ''persona''
         then [(Users, True)] else []) @
        (if includes_str lowerText ''idea'' \<or> includes_str lowerText ''approach''
         then [(Ideation, True)] else []) @
        (if includes_str lowerText ''state'' \<or> includes_str lowerText ''flow''
            \<or> includes_str lowerText ''error''
         then [(Systems, True)] else []) @
        (if includes_str lowerText ''metric'' \<or> includes_str lowerText ''kpi''
            \<or> includes_str lowerText ''experiment''
         then [(Metrics, True)] else []) @
        (if includes_str lowerText ''accessibility'' \<or> includes_str lowerText ''wcag''
         then [(Accessibility, True)] else []))"

definition Object_keys :: "(tag \<times> bool) list \<Rightarrow> tag list" where
  "Object_keys obj = map fst obj"

text \<open>The spread \<^verbatim>\<open>{ ...prev, ...updates }\<close>: each property of \<^verbatim>\<open>updates\<close> overwrites.\<close>

definition spread :: "CoverageTags \<Rightarrow> (tag \<times> bool) list \<Rightarrow> CoverageTags" where
  "spread prev updates = fold (\<lambda>(k, v) c. set_tag k v c) updates prev"

definition updateCoverageTags :: "string \<Rightarrow> CoverageTags \<Rightarrow> CoverageTags" where
  "updateCoverageTags text prev =
     (let updates = coverage_updates text in
        if length (Object_keys updates) > 0 then spread prev updates else prev)"

text \<open>
  The set of topic keys that one utterance matches: the keys of \<^verbatim>\<open>updates\<close>.
\<close>

definition detect :: "string \<Rightarrow> tag set" where
  "detect text = set (Object_keys (coverage_updates text))"

text \<open>
  The keyword table as the specification words it, and the set of topics of which some
  keyword occurs in the lower-cased input (\<open>sublist\<close> is the contiguous-substring relation).
\<close>

fun spec_keywords :: "tag \<Rightarrow> string list" where
  "spec_keywords Framing = [''goal'', ''problem'']"
| "spec_keywords Constraints = [''constraint'', ''limit'']"
| "spec_keywords Users = [''user'', ''persona'']"
| "spec_keywords Ideation = [''idea'', ''approach'']"
| "spec_keywords Systems = [''state'', ''flow'', ''error'']"
| "spec_keywords Metrics = [''metric'', ''kpi'', ''experiment'']"
| "spec_keywords Accessibility = [''accessibility'', ''wcag'']"

definition spec_detect :: "string \<Rightarrow> tag set" where
  "spec_detect text =
     {k. \<exists>kw \<in> set (spec_keywords k). sublist kw (toLowerCase text)}"

section \<open>Transcript (src/app/page.tsx)\<close>

text \<open>\<^verbatim>\<open>interface Message { role: 'Coach' | 'You'; text: string }\<close>\<close>

record Message =
  role :: string
  msg_text :: string

record session =
  transcript :: "Message list"
  coverageTags :: CoverageTags

text \<open>
  \<^verbatim>\<open>addUserMessage\<close>: appends a turn of the participant and updates the coverage tags from
  its text. Speech recognition results and typed messages both go through it.
\<close>

definition addUserMessage :: "string \<Rightarrow> session \<Rightarrow> session" where
  "addUserMessage t s =
     s\<lparr>transcript := transcript s @ [\<lparr>role = ''You'', msg_text = t\<rparr>],
       coverageTags := updateCoverageTags t (coverageTags s)\<rparr>"

section \<open>Speech playback (src/app/page.tsx)\<close>

text \<open>
  The hidden \<^verbatim>\<open><audio>\<close> element behind \<^verbatim>\<open>audioRef\<close>. Object URLs are numbered in the
  order \<^verbatim>\<open>URL.createObjectURL\<close> creates them. \<open>src\<close> is the URL assigned to the element;
  \<open>onended\<close> is the handler installed on it, given by the \<^verbatim>\<open>audioUrl\<close> its closure holds.
\<close>

record audio_element =
  src :: "nat option"
  onended :: "nat option"

text \<open>
  \<open>object_urls\<close> lists the object URLs created and not yet revoked, \<open>created\<close> counts
  the URLs created so far, and \<open>fetches\<close> counts the requests to \<^verbatim>\<open>/api/tts\<close> in flight.
\<close>

record playback =
  isSpeaking :: bool
  isMuted :: bool
  audioRef :: "audio_element option"
  object_urls :: "nat list"
  created :: nat
  fetches :: nat

definition initial_playback :: playback where
  "initial_playback =
     \<lparr>isSpeaking = False, isMuted = False,
      audioRef = Some \<lparr>src = None, onended = None\<rparr>,
      object_urls = [], created = 0, fetches = 0\<rparr>"

text \<open>How the awaited \<^verbatim>\<open>fetch\<close> settles: it rejects, or resolves with \<^verbatim>\<open>response.ok\<close>.\<close>

datatype fetch_result = Fetch_rejected | Fetch_response bool

text \<open>\<^verbatim>\<open>speakText\<close> up to its first \<^verbatim>\<open>await\<close>: the mute check, the flag, the request.\<close>

definition speakText_call :: "playback \<Rightarrow> playback" where
  "speakText_call s =
     (if isMuted s then s else s\<lparr>isSpeaking := True, fetches := Suc (fetches s)\<rparr>)"

text \<open>The \<^verbatim>\<open>catch\<close> block of \<^verbatim>\<open>speakText\<close>.\<close>

definition speakText_catch :: "playback \<Rightarrow> playback" where
  "speakText_catch s = s\<lparr>isSpeaking := False\<rparr>"

text \<open>
  \<^verbatim>\<open>speakText\<close> from the settled \<^verbatim>\<open>fetch\<close> to \<^verbatim>\<open>await audioRef.current.play()\<close>: a failed
  request throws; otherwise the blob gets a fresh object URL, which becomes the element's
  \<^verbatim>\<open>src\<close>, and a new \<^verbatim>\<open>onended\<close> handler replaces the element's previous one.
\<close>

definition speakText_resume :: "fetch_result \<Rightarrow> playback \<Rightarrow> playback" where
  "speakText_resume r s =
     (case r of
        Fetch_rejected \<Rightarrow> speakText_catch s
      | Fetch_response ok \<Rightarrow>
          if \<not> ok then speakText_catch s
          else
            (let audioUrl = created s;
                 s1 = s\<lparr>object_urls := object_urls s @ [audioUrl], created := Suc (created s)\<rparr>
             in case audioRef s1 of
                  None \<Rightarrow> s1
                | Some a \<Rightarrow>
                    s1\<lparr>audioRef := Some (a\<lparr>src := Some audioUrl, onended := Some audioUrl\<rparr>)\<rparr>))"

text \<open>
  The element's \<^verbatim>\<open>ended\<close> event runs the installed handler:
  \<^verbatim>\<open>setIsSpeaking(false); URL.revokeObjectURL(audioUrl)\<close>.
\<close>

definition audio_ended :: "playback \<Rightarrow> playback" where
  "audio_ended s =
     (case audioRef s of
        None \<Rightarrow> s
      | Some a \<Rightarrow>
          (case onended a of
             None \<Rightarrow> s
           | Some audioUrl \<Rightarrow>
               s\<lparr>isSpeaking := False, object_urls := removeAll audioUrl (object_urls s)\<rparr>))"

text \<open>
  The events of the playback controller, delivered one at a time: a call of
  \<^verbatim>\<open>speakText\<close>, a pending request settling, \<^verbatim>\<open>play()\<close> rejecting, and the end of playback.
\<close>

datatype playback_event = Speak | Fetch_done fetch_result | Play_rejected | Audio_ended

fun playback_step :: "playback_event \<Rightarrow> playback \<Rightarrow> playback" where
  "playback_step Speak s = speakText_call s"
| "playback_step (Fetch_done r) s =
     (if fetches s = 0 then s else speakText_resume r (s\<lparr>fetches := fetches s - 1\<rparr>))"
| "playback_step Play_rejected s = speakText_catch s"
| "playback_step Audio_ended s = audio_ended s"

definition playback_run :: "playback_event list \<Rightarrow> playback \<Rightarrow> playback" where
  "playback_run es s = fold playback_step es s"

section \<open>The API routes\<close>

subsection \<open>Values crossing the routes\<close>

text \<open>
  JSON values, as \<^verbatim>\<open>NextResponse.json\<close> sends them and \<^verbatim>\<open>JSON.parse\<close> returns them. An
  object is the list of its properties in order. Numbers are integers here: the rubric
  scores and the drill times of an evaluation.
\<close>

datatype json =
    JNull
  | JBool bool
  | JNum int
  | JStr string
  | JArr "json list"
  | JObj "(string \<times> json) list"

text \<open>
  A response is \<^verbatim>\<open>NextResponse.json(body, { status })\<close>, with status 200 when none is
  given, or the \<^verbatim>\<open>audio/wav\<close> response of the speech route. The route builds the WAV
  buffer (header and silent samples) from \<^verbatim>\<open>text.length\<close> alone; \<open>Wav_response\<close> carries
  that length, the bytes are not modelled.
\<close>

datatype response = Json_response nat json | Wav_response nat

text \<open>
  What a \<^verbatim>\<open>catch (error)\<close> block receives, and the \<^verbatim>\<open>details\<close> it reports:
  \<^verbatim>\<open>error instanceof Error ? error.message : 'Unknown error'\<close>.
\<close>

datatype thrown = Error string | Not_an_Error

fun error_details :: "thrown \<Rightarrow> string" where
  "error_details (Error message) = message"
| "error_details Not_an_Error = ''Unknown error''"

text \<open>
  The body of a request to the coach and evaluate routes, after \<^verbatim>\<open>await request.json()\<close>
  and the destructuring. The fields have the types the page sends; a field that is absent
  (\<^verbatim>\<open>undefined\<close>) is \<open>None\<close>.
\<close>

record request_body =
  req_phase :: "string option"
  req_prompt :: "string option"
  req_transcript :: "Message list option"
  req_coverageTags :: "CoverageTags option"
  req_screenshotCount :: "nat option"

record tts_body =
  tts_text :: "string option"

text \<open>
  JavaScript truthiness at these types. \<^verbatim>\<open>!x\<close> holds of \<^verbatim>\<open>undefined\<close> and of the empty
  string; it holds of no array, the empty array included.
\<close>

definition falsy_string :: "string option \<Rightarrow> bool" where
  "falsy_string x = (case x of None \<Rightarrow> True | Some s \<Rightarrow> s = [])"

definition falsy_array :: "'a list option \<Rightarrow> bool" where
  "falsy_array x = (case x of None \<Rightarrow> True | Some xs \<Rightarrow> False)"

text \<open>\<^verbatim>\<open>a || b\<close> on strings, and a value inside a template literal.\<close>

definition or_string :: "string \<Rightarrow> string \<Rightarrow> string" where
  "or_string a b = (if a = [] then b else a)"

definition template_value :: "string option \<Rightarrow> string" where
  "template_value x = (case x of None \<Rightarrow> ''undefined'' | Some s \<Rightarrow> s)"

text \<open>\<^verbatim>\<open>Array.prototype.join\<close> on an array of strings.\<close>

fun join :: "string \<Rightarrow> string list \<Rightarrow> string" where
  "join sep [] = []"
| "join sep [x] = x"
| "join sep (x # y # ys) = x @ sep @ join sep (y # ys)"

text \<open>
  A non-negative integer inside a template literal: its decimal digits (the page sends
  \<^verbatim>\<open>screenshots.length\<close>, far below the magnitude at which JavaScript switches to
  exponent notation).
\<close>

fun show_nat :: "nat \<Rightarrow> string" where
  "show_nat n =
     (if n < 10 then [''0123456789'' ! n]
      else show_nat (n div 10) @ [''0123456789'' ! (n mod 10)])"

definition nl :: string where
  "nl = [CHR 0x0A]"

text \<open>
  A request to the Gemini model: the model name and generation configuration given to
  \<^verbatim>\<open>getGenerativeModel\<close>, and the system instruction and the text of the single user part
  given to \<^verbatim>\<open>generateContent\<close>. The model either yields the text of its response or throws.
\<close>

record generation_config =
  temperature :: rat
  responseMimeType :: string

record generate_request =
  model_name :: string
  generationConfig :: "generation_config option"
  systemInstruction :: "string option"
  contents :: string

type_synonym model_reply = "thrown + string"

text \<open>
  The keys of a \<^verbatim>\<open>CoverageTags\<close> object in property order, and their names.
\<close>

definition CoverageTags_keys :: "tag list" where
  "CoverageTags_keys = [Framing, Constraints, Users, Ideation, Systems, Metrics, Accessibility]"

fun tag_name :: "tag \<Rightarrow> string" where
  "tag_name Framing = ''framing''"
| "tag_name Constraints = ''constraints''"
| "tag_name Users = ''users''"
| "tag_name Ideation = ''ideation''"
| "tag_name Systems = ''systems''"
| "tag_name Metrics = ''metrics''"
| "tag_name Accessibility = ''accessibility''"

text \<open>
  \<^verbatim>\<open>Object.keys(coverageTags || {}).filter(tag => coverageTags[tag])\<close>
\<close>

definition coveredTags_of :: "CoverageTags option \<Rightarrow> string list" where
  "coveredTags_of c =
     (case c of
        None \<Rightarrow> []
      | Some tags \<Rightarrow> map tag_name (filter (get_tag tags) CoverageTags_keys))"

text \<open>\<^verbatim>\<open>transcript.map(msg => `${msg.role}: ${msg.text}`).join('\n')\<close>\<close>

definition transcriptText_of :: "Message list \<Rightarrow> string" where
  "transcriptText_of t = join nl (map (\<lambda>msg. role msg @ '': '' @ msg_text msg) t)"

text \<open>\<^verbatim>\<open>${screenshotCount || 0}\<close>\<close>

definition screenshotCount_text :: "nat option \<Rightarrow> string" where
  "screenshotCount_text c = show_nat (case c of None \<Rightarrow> 0 | Some n \<Rightarrow> n)"

subsection \<open>The coach route (\<^verbatim>\<open>POST /api/coach\<close>)\<close>

definition allTags :: "string list" where
  "allTags = [''framing'', ''constraints'', ''users'', ''ideation'', ''systems'', ''metrics'',
              ''accessibility'']"

definition coach_systemInstruction :: "string option \<Rightarrow> string" where
  "coach_systemInstruction ph =
     ''You are a product design challenge coach. Guide without dictating solutions. '' @
     ''Enforce current phase: '' @ template_value ph @
     ''. Keep the single strong constraint central. Probe for: problem framing, '' @
     ''constraints, users, ideation breadth, systems thinking, metrics, accessibility. '' @
     ''Prefer questions over advice. Return a short nudge (<= 2 sentences). '' @
     ''Escalate specificity when the user stalls.''"

definition coach_promptText ::
  "request_body \<Rightarrow> string list \<Rightarrow> string list \<Rightarrow> string \<Rightarrow> string" where
  "coach_promptText b coveredTags missingTags transcriptText =
     ''Design Prompt: '' @ template_value (req_prompt b) @ nl @
     nl @
     ''Current Phase: '' @ template_value (req_phase b) @ nl @
     ''Screenshot Count: '' @ screenshotCount_text (req_screenshotCount b) @ nl @
     ''Covered Topics: '' @ or_string (join '', '' coveredTags) ''none'' @ nl @
     ''Missing Topics: '' @ or_string (join '', '' missingTags) ''none'' @ nl @
     nl @
     ''Transcript:'' @ nl @
     transcriptText @ nl @
     nl @
     ''Provide a coaching nudge (max 2 sentences) that guides the designer without '' @
     ''dictating solutions. Focus on the current phase and missing coverage areas.''"

definition coach_failure :: "thrown \<Rightarrow> response" where
  "coach_failure e =
     Json_response 500
       (JObj [(''error'', JStr ''Failed to generate coaching nudge''),
              (''details'', JStr (error_details e))])"

text \<open>
  The handler. Its first argument is the outcome of \<^verbatim>\<open>await request.json()\<close> (which throws
  on a malformed body), its second what the model does if it is called. The result pairs
  the requests sent to the model, in order, with the response returned.
\<close>

definition coach_POST ::
  "thrown + request_body \<Rightarrow> model_reply \<Rightarrow> generate_request list \<times> response" where
  "coach_POST body reply =
     (case body of
        Inl e \<Rightarrow> ([], coach_failure e)
      | Inr b \<Rightarrow>
          if falsy_string (req_phase b) \<or> falsy_string (req_prompt b)
             \<or> falsy_array (req_transcript b)
          then ([], Json_response 400
                      (JObj [(''error'',
                              JStr ''Missing required fields: phase, prompt, transcript'')]))
          else
            (case req_transcript b of
               None \<Rightarrow>
                 ([], coach_failure
                        (Error ''Cannot read properties of undefined (reading 'map')''))
             | Some t \<Rightarrow>
                 (let transcriptText = transcriptText_of t;
                      coveredTags = coveredTags_of (req_coverageTags b);
                      missingTags = filter (\<lambda>tag. tag \<notin> set coveredTags) allTags;
                      request =
                        \<lparr>model_name = ''gemini-2.0-flash-exp'',
                         generationConfig = None,
                         systemInstruction = Some (coach_systemInstruction (req_phase b)),
                         contents = coach_promptText b coveredTags missingTags transcriptText\<rparr>
                  in case reply of
                       Inl e \<Rightarrow> ([request], coach_failure e)
                     | Inr nudge \<Rightarrow>
                         ([request],
                          Json_response 200
                            (JObj ((''nudge'', JStr nudge) #
                                   (if length missingTags > 0
                                    then [(''coverageNudge'',
                                           JStr (''You're missing: '' @
                                                 join '', '' missingTags @ ''.''))]
                                    else [])))))))"

subsection \<open>The speech route (\<^verbatim>\<open>POST /api/tts\<close>)\<close>

definition tts_failure :: "thrown \<Rightarrow> response" where
  "tts_failure e =
     Json_response 500
       (JObj [(''error'', JStr ''Failed to generate speech''),
              (''details'', JStr (error_details e))])"

definition tts_POST ::
  "thrown + tts_body \<Rightarrow> model_reply \<Rightarrow> generate_request list \<times> response" where
  "tts_POST body reply =
     (case body of
        Inl e \<Rightarrow> ([], tts_failure e)
      | Inr b \<Rightarrow>
          if falsy_string (tts_text b)
          then ([], Json_response 400
                      (JObj [(''error'', JStr ''Missing required field: text'')]))
          else
            (let request =
                   \<lparr>model_name = ''gemini-2.0-flash-exp'',
                    generationConfig = None,
                    systemInstruction = None,
                    contents = template_value (tts_text b)\<rparr>
             in case reply of
                  Inl e \<Rightarrow> ([request], tts_failure e)
                | Inr audioText \<Rightarrow>
                    ([request], Wav_response (length (template_value (tts_text b))))))"

subsection \<open>The evaluate route (\<^verbatim>\<open>POST /api/evaluate\<close>)\<close>

text \<open>
  \<^verbatim>\<open>interface EvaluationResult\<close> of the route gives a drill the fields \<^verbatim>\<open>title: string\<close>,
  \<^verbatim>\<open>time: number\<close> and \<^verbatim>\<open>description: string\<close>; it is a compile-time annotation on the
  result of \<^verbatim>\<open>JSON.parse\<close>. The schema sent to the model is part of the system instruction.
\<close>

definition evaluate_systemInstruction :: string where
  \<open>evaluate_systemInstruction =
     ''You are an expert design interview evaluator. Produce compact JSON with rubric '' @
     ''scores (1-5) and improvement drills. Be specific and actionable.'' @ nl @
     nl @
     ''Schema:'' @ nl @
     ''{'' @ nl @
     ''  "rubric": {'' @ nl @
     ''    "problem_framing": 1-5,'' @ nl @
     ''    "idea_breadth": 1-5,'' @ nl @
     ''    "systems_thinking": 1-5,'' @ nl @
     ''    "prioritization": 1-5,'' @ nl @
     ''    "metrics_discipline": 1-5,'' @ nl @
     ''    "communication": 1-5,'' @ nl @
     ''    "velocity_with_rigor": 1-5'' @ nl @
     ''  },'' @ nl @
     ''  "strengths": [string],'' @ nl @
     ''  "weaknesses": [string],'' @ nl @
     ''  "drills": [{"title": string, "time": number, "description": string}],'' @ nl @
     ''  "narrative": string'' @ nl @
     ''}'' @ nl @
     nl @
     ''Strictly adhere to this schema.''\<close>

text \<open>\<^verbatim>\<open>${phase || 'unknown'}\<close>\<close>

definition or_default :: "string option \<Rightarrow> string \<Rightarrow> string" where
  "or_default x d = (case x of None \<Rightarrow> d | Some s \<Rightarrow> or_string s d)"

definition evaluate_promptText :: "request_body \<Rightarrow> string list \<Rightarrow> string \<Rightarrow> string" where
  "evaluate_promptText b coveredTags transcriptText =
     ''Design Prompt: '' @ template_value (req_prompt b) @ nl @
     nl @
     ''Transcript:'' @ nl @
     transcriptText @ nl @
     nl @
     ''Coverage Tags: '' @ or_string (join '', '' coveredTags) ''none'' @ nl @
     ''Screenshot Count: '' @ screenshotCount_text (req_screenshotCount b) @ nl @
     ''Final Phase: '' @ or_default (req_phase b) ''unknown'' @ nl @
     nl @
     ''Evaluate this design interview performance and provide scores, strengths, '' @
     ''weaknesses, practice drills, and a brief narrative summary.''"

definition evaluate_failure :: "thrown \<Rightarrow> response" where
  "evaluate_failure e =
     Json_response 500
       (JObj [(''error'', JStr ''Failed to evaluate interview''),
              (''details'', JStr (error_details e))])"

text \<open>
  The handler. \<^verbatim>\<open>JSON.parse\<close> belongs to the JavaScript runtime and is the parameter
  \<open>parse\<close>: \<open>None\<close> when it throws, the parsed value otherwise.
\<close>

definition evaluate_POST ::
  "(string \<Rightarrow> json option) \<Rightarrow> thrown + request_body \<Rightarrow> model_reply
     \<Rightarrow> generate_request list \<times> response" where
  "evaluate_POST parse body reply =
     (case body of
        Inl e \<Rightarrow> ([], evaluate_failure e)
      | Inr b \<Rightarrow>
          if falsy_string (req_prompt b) \<or> falsy_array (req_transcript b)
          then ([], Json_response 400
                      (JObj [(''error'', JStr ''Missing required fields: prompt, transcript'')]))
          else
            (case req_transcript b of
               None \<Rightarrow>
                 ([], evaluate_failure
                        (Error ''Cannot read properties of undefined (reading 'map')''))
             | Some t \<Rightarrow>
                 (let transcriptText = transcriptText_of t;
                      coveredTags = coveredTags_of (req_coverageTags b);
                      request =
                        \<lparr>model_name = ''gemini-2.0-flash-exp'',
                         generationConfig =
                           Some \<lparr>temperature = 2 / 10,
                                 responseMimeType = ''application/json''\<rparr>,
                         systemInstruction = Some evaluate_systemInstruction,
                         contents = evaluate_promptText b coveredTags transcriptText\<rparr>
                  in case reply of
                       Inl e \<Rightarrow> ([request], evaluate_failure e)
                     | Inr text \<Rightarrow>
                         (case parse text of
                            Some evaluation \<Rightarrow> ([request], Json_response 200 evaluation)
                          | None \<Rightarrow>
                              ([request],
                               Json_response 200
                                 (JObj [(''error'', JStr ''Failed to parse evaluation''),
                                        (''raw'', JStr text)]))))))"

subsection \<open>A JSON reader for concrete texts\<close>

text \<open>
  A reader for a fragment of the JSON grammar, used to run \<open>evaluate_POST\<close> on concrete
  texts: objects whose keys are distinct and not numerals (JavaScript enumerates integer
  keys before the others, so the order of the text is the order of the properties only
  without them), arrays, strings of printable ASCII characters without escapes,
  non-negative integers of at most fifteen digits, \<^verbatim>\<open>true\<close>, \<^verbatim>\<open>false\<close>, \<^verbatim>\<open>null\<close>, and
  white space. On a text it accepts, it yields the value that \<^verbatim>\<open>JSON.parse\<close> yields, the
  properties of an object in order; it yields \<open>None\<close> on every text that is not JSON, and
  also on JSON outside the fragment. The first argument of the recursive functions bounds
  the number of nested calls.
\<close>

definition is_ws :: "char \<Rightarrow> bool" where
  "is_ws c = (c = CHR '' '' \<or> c = CHR 0x09 \<or> c = CHR 0x0A \<or> c = CHR 0x0D)"

definition skip_ws :: "string \<Rightarrow> string" where
  "skip_ws s = dropWhile is_ws s"

definition is_digit :: "char \<Rightarrow> bool" where
  "is_digit c = (48 \<le> (of_char c :: nat) \<and> (of_char c :: nat) \<le> 57)"

definition digits_value :: "string \<Rightarrow> int" where
  "digits_value ds = foldl (\<lambda>n c. 10 * n + (of_char c - 48)) 0 ds"

definition numeral_key :: "string \<Rightarrow> bool" where
  "numeral_key k = (k \<noteq> [] \<and> list_all is_digit k)"

text \<open>The characters of a string up to its closing quote, and the text after it.\<close>

fun read_string :: "string \<Rightarrow> (string \<times> string) option" where
  "read_string [] = None"
| "read_string (c # cs) =
     (if c = CHR 0x22 then Some ([], cs)
      else if c = CHR 0x5C \<or> (of_char c :: nat) < 32 \<or> (of_char c :: nat) > 126 then None
      else (case read_string cs of
              None \<Rightarrow> None
            | Some (str, rest) \<Rightarrow> Some (c # str, rest)))"

definition read_number :: "string \<Rightarrow> (json \<times> string) option" where
  "read_number s =
     (let ds = takeWhile is_digit s in
        if ds = [] \<or> (length ds > 1 \<and> hd ds = CHR ''0'') \<or> length ds > 15 then None
        else Some (JNum (digits_value ds), dropWhile is_digit s))"

fun read_value :: "nat \<Rightarrow> string \<Rightarrow> (json \<times> string) option"
  and read_elements :: "nat \<Rightarrow> string \<Rightarrow> (json list \<times> string) option"
  and read_members :: "nat \<Rightarrow> string \<Rightarrow> ((string \<times> json) list \<times> string) option"
where
  "read_value 0 s = None"
| "read_value (Suc n) s =
     (case s of
        [] \<Rightarrow> None
      | c # cs \<Rightarrow>
          if c = CHR ''{'' then
            (if starts_with (skip_ws cs) ''}'' then Some (JObj [], drop 1 (skip_ws cs))
             else (case read_members n (skip_ws cs) of
                     None \<Rightarrow> None
                   | Some (kvs, rest) \<Rightarrow>
                       if distinct (map fst kvs) \<and> \<not> list_ex numeral_key (map fst kvs)
                       then Some (JObj kvs, rest) else None))
          else if c = CHR ''['' then
            (if starts_with (skip_ws cs) '']'' then Some (JArr [], drop 1 (skip_ws cs))
             else (case read_elements n (skip_ws cs) of
                     None \<Rightarrow> None
                   | Some (vs, rest) \<Rightarrow> Some (JArr vs, rest)))
          else if c = CHR 0x22 then
            (case read_string cs of
               None \<Rightarrow> None
             | Some (str, rest) \<Rightarrow> Some (JStr str, rest))
          else if starts_with s ''null'' then Some (JNull, drop 4 s)
          else if starts_with s ''true'' then Some (JBool True, drop 4 s)
          else if starts_with s ''false'' then Some (JBool False, drop 5 s)
          else read_number s)"
| "read_elements 0 s = None"
| "read_elements (Suc n) s =
     (case read_value n s of
        None \<Rightarrow> None
      | Some (v, rest) \<Rightarrow>
          (case skip_ws rest of
             [] \<Rightarrow> None
           | c # cs \<Rightarrow>
               if c = CHR '']'' then Some ([v], cs)
               else if c = CHR '','' then
                 (case read_elements n (skip_ws cs) of
                    None \<Rightarrow> None
                  | Some (vs, rest') \<Rightarrow> Some (v # vs, rest'))
               else None))"
| "read_members 0 s = None"
| "read_members (Suc n) s =
     (case s of
        [] \<Rightarrow> None
      | q # s1 \<Rightarrow>
          if q \<noteq> CHR 0x22 then None
          else
            (case read_string s1 of
               None \<Rightarrow> None
             | Some (key, s2) \<Rightarrow>
                 (case skip_ws s2 of
                    [] \<Rightarrow> None
                  | colon # s3 \<Rightarrow>
                      if colon \<noteq> CHR '':'' then None
                      else
                        (case read_value n (skip_ws s3) of
                           None \<Rightarrow> None
                         | Some (v, rest) \<Rightarrow>
                             (case skip_ws rest of
                                [] \<Rightarrow> None
                              | c # cs \<Rightarrow>
                                  if c = CHR ''}'' then Some ([(key, v)], cs)
                                  else if c = CHR '','' then
                                    (case read_members n (skip_ws cs) of
                                       None \<Rightarrow> None
                                     | Some (kvs, rest') \<Rightarrow> Some ((key, v) # kvs, rest'))
                                  else None)))))"

definition JSON_parse_fragment :: "string \<Rightarrow> json option" where
  "JSON_parse_fragment text =
     (case read_value (Suc (length text)) (skip_ws text) of
        None \<Rightarrow> None
      | Some (v, rest) \<Rightarrow> if skip_ws rest = [] then Some v else None)"

subsection \<open>Reading a result\<close>

text \<open>Property access on a parsed value: \<^verbatim>\<open>data.error\<close>, \<^verbatim>\<open>data.drills\<close>, and so on.\<close>

definition json_field :: "json \<Rightarrow> string \<Rightarrow> json option" where
  "json_field v k = (case v of JObj kvs \<Rightarrow> map_of kvs k | _ \<Rightarrow> None)"

definition status_of :: "response \<Rightarrow> nat" where
  "status_of r = (case r of Json_response st v \<Rightarrow> st | Wav_response n \<Rightarrow> 200)"

subsection \<open>The specification's reading of an evaluation\<close>

text \<open>
  The specification's ParseError: a response that reports an error and carries the raw
  text of the model's reply.
\<close>

definition spec_ParseError_with_raw :: "string \<Rightarrow> response \<Rightarrow> bool" where
  "spec_ParseError_with_raw raw r =
     (case r of
        Json_response st v \<Rightarrow>
          json_field v ''error'' \<noteq> None \<and> json_field v ''raw'' = Some (JStr raw)
      | Wav_response n \<Rightarrow> False)"

fun is_JStr :: "json option \<Rightarrow> bool" where
  "is_JStr (Some (JStr s)) = True"
| "is_JStr v = False"

fun is_JNum :: "json option \<Rightarrow> bool" where
  "is_JNum (Some (JNum n)) = True"
| "is_JNum v = False"

text \<open>
  The specification's drill: a record with exactly the fields \<^verbatim>\<open>title\<close> (a string),
  \<^verbatim>\<open>minutes\<close> (a number) and \<^verbatim>\<open>description\<close> (a string); and a result whose
  \<^verbatim>\<open>drills\<close> is a list of such records.
\<close>

definition spec_drill :: "json \<Rightarrow> bool" where
  "spec_drill d =
     (case d of
        JObj kvs \<Rightarrow>
          set (map fst kvs) = {''title'', ''minutes'', ''description''}
          \<and> is_JStr (map_of kvs ''title'') \<and> is_JNum (map_of kvs ''minutes'')
          \<and> is_JStr (map_of kvs ''description'')
      | _ \<Rightarrow> False)"

definition spec_drills :: "json \<Rightarrow> bool" where
  "spec_drills v =
     (case json_field v ''drills'' of
        Some (JArr ds) \<Rightarrow> list_all spec_drill ds
      | _ \<Rightarrow> False)"

subsection \<open>An invariant of the playback controller\<close>

text \<open>
  An object URL \<open>u\<close> is superseded when it is live while the handler installed on the audio
  element no longer holds it: no \<^verbatim>\<open>ended\<close> event can revoke it any more.
\<close>

definition superseded :: "nat \<Rightarrow> playback \<Rightarrow> bool" where
  "superseded u s \<longleftrightarrow>
     u \<in> set (object_urls s) \<and> u < created s
     \<and> (case audioRef s of None \<Rightarrow> True | Some a \<Rightarrow> onended a \<noteq> Some u)"

section \<open>Properties of the phase timer\<close>

text \<open>Away from a phase boundary the updater calls no setter, and the two paths agree.\<close>

lemma tick_countdown:
  "isRunning s \<Longrightarrow> 1 < timeLeft s \<Longrightarrow> tick d s = s\<lparr>timeLeft := timeLeft s - 1\<rparr>"
  by (cases d) (simp_all add: tick_def timer_updater_def)

lemma ticks_countdown:
  "isRunning s \<Longrightarrow> int (length ds) < timeLeft s \<Longrightarrow>
     ticks ds s = s\<lparr>timeLeft := timeLeft s - int (length ds)\<rparr>"
proof (induction ds arbitrary: s)
  case Nil
  then show ?case by (simp add: ticks_def)
next
  case (Cons d ds)
  have step: "tick d s = s\<lparr>timeLeft := timeLeft s - 1\<rparr>"
    using Cons.prems by (simp add: tick_countdown)
  have "ticks ds (s\<lparr>timeLeft := timeLeft s - 1\<rparr>)
          = s\<lparr>timeLeft := timeLeft s - 1 - int (length ds)\<rparr>"
    using Cons.IH [of "s\<lparr>timeLeft := timeLeft s - 1\<rparr>"] Cons.prems by simp
  then show ?case
    using step by (simp add: ticks_def algebra_simps)
qed

lemma ticks_append: "ticks (ds @ ds') s = ticks ds' (ticks ds s)"
  by (simp add: ticks_def)

text \<open>
  A running phase that starts with \<open>d\<close> seconds counts down to 1 in \<open>d - 1\<close> ticks,
  whatever paths the dispatches take; the next tick is the one that finds \<^verbatim>\<open>prev <= 1\<close>.
\<close>

lemma phase_run:
  assumes "int (length ds) + 1 = n"
  shows "ticks (ds @ [d]) \<lparr>phase = p, timeLeft = n, isRunning = True\<rparr>
           = tick d \<lparr>phase = p, timeLeft = 1, isRunning = True\<rparr>"
proof -
  have "ticks ds \<lparr>phase = p, timeLeft = n, isRunning = True\<rparr>
          = \<lparr>phase = p, timeLeft = 1, isRunning = True\<rparr>"
    using ticks_countdown [of "\<lparr>phase = p, timeLeft = n, isRunning = True\<rparr>" ds] assms
    by simp
  then show ?thesis
    by (simp add: ticks_append ticks_def)
qed

lemma replicate_snoc: "replicate (Suc k) x = replicate k x @ [x]"
  by (simp add: replicate_append_same)

text \<open>
  Claim C4 fails on the code. Take 1200 ticks from the initial clock, the first 1199
  dispatched on any paths \<open>f\<close>. When the last one is served eagerly, the clock ends in
  Heads-down with 1 second remaining, not 1500: the value \<^verbatim>\<open>prev\<close> that the updater returns
  overwrites the reset it has just requested, and the next tick already leaves
  Heads-down. When every boundary tick is served at render, the schedule of the claim
  holds: 1500 seconds after 1200 ticks, and Presentation with 0 seconds and a stopped
  clock after a further 1500 + 900 ticks.
\<close>

theorem timer_boundary_overwrites_reset:
  "ticks (map f [0..<1199] @ [Eager]) initial_clock
     = \<lparr>phase = Heads_down, timeLeft = 1, isRunning = True\<rparr>
   \<and> ticks [At_render] \<lparr>phase = Heads_down, timeLeft = 1, isRunning = True\<rparr>
     = \<lparr>phase = Presentation, timeLeft = 900, isRunning = True\<rparr>
   \<and> ticks (map f [0..<1199] @ [At_render]) initial_clock
     = \<lparr>phase = Heads_down, timeLeft = 1500, isRunning = True\<rparr>
   \<and> ticks (replicate (1500 + 900) At_render)
       \<lparr>phase = Heads_down, timeLeft = 1500, isRunning = True\<rparr>
     = \<lparr>phase = Presentation, timeLeft = 0, isRunning = False\<rparr>"
proof -
  have a: "ticks (map f [0..<1199] @ [d]) initial_clock
             = tick d \<lparr>phase = Discovery, timeLeft = 1, isRunning = True\<rparr>" for d
    using phase_run [of "map f [0..<1199]" 1200 d Discovery]
    by (simp add: initial_clock_def)
  have e: "tick Eager \<lparr>phase = Discovery, timeLeft = 1, isRunning = True\<rparr>
             = \<lparr>phase = Heads_down, timeLeft = 1, isRunning = True\<rparr>"
    by (simp add: tick_def timer_updater_def)
  have r: "tick At_render \<lparr>phase = Discovery, timeLeft = 1, isRunning = True\<rparr>
             = \<lparr>phase = Heads_down, timeLeft = 1500, isRunning = True\<rparr>"
    by (simp add: tick_def timer_updater_def)
  have n: "ticks [At_render] \<lparr>phase = Heads_down, timeLeft = 1, isRunning = True\<rparr>
             = \<lparr>phase = Presentation, timeLeft = 900, isRunning = True\<rparr>"
    by (simp add: ticks_def tick_def timer_updater_def)
  have b: "ticks (replicate 1500 At_render)
             \<lparr>phase = Heads_down, timeLeft = 1500, isRunning = True\<rparr>
           = \<lparr>phase = Presentation, timeLeft = 900, isRunning = True\<rparr>"
    using phase_run [of "replicate 1499 At_render" 1500 At_render Heads_down]
      replicate_snoc [of 1499 At_render]
    by (simp add: tick_def timer_updater_def)
  have c: "ticks (replicate 900 At_render)
             \<lparr>phase = Presentation, timeLeft = 900, isRunning = True\<rparr>
           = \<lparr>phase = Presentation, timeLeft = 0, isRunning = False\<rparr>"
    using phase_run [of "replicate 899 At_render" 900 At_render Presentation]
      replicate_snoc [of 899 At_render]
    by (simp add: tick_def timer_updater_def)
  have "ticks (replicate 1500 At_render @ replicate 900 At_render)
          \<lparr>phase = Heads_down, timeLeft = 1500, isRunning = True\<rparr>
        = \<lparr>phase = Presentation, timeLeft = 0, isRunning = False\<rparr>"
    unfolding ticks_append by (simp add: b c)
  then have d: "ticks (replicate (1500 + 900) At_render)
          \<lparr>phase = Heads_down, timeLeft = 1500, isRunning = True\<rparr>
        = \<lparr>phase = Presentation, timeLeft = 0, isRunning = False\<rparr>"
    by (simp only: replicate_add)
  show ?thesis
    using a [of Eager] a [of At_render] e r n d by simp
qed

text \<open>
  Claim C8. Whatever the clock holds, selecting phase \<open>p\<close> makes \<open>p\<close> the active phase,
  sets the remaining time to the full duration of \<open>p\<close> (1200, 1500 and 900 seconds) and
  sets the clock running.
\<close>

theorem changePhase_resets:
  "changePhase p s = \<lparr>phase = p, timeLeft = PHASE_DURATIONS p, isRunning = True\<rparr>
   \<and> PHASE_DURATIONS Discovery = 1200
   \<and> PHASE_DURATIONS Heads_down = 1500
   \<and> PHASE_DURATIONS Presentation = 900"
  by (simp add: changePhase_def)

section \<open>Properties of the coverage detector\<close>

lemma starts_with_prefix: "starts_with s k \<longleftrightarrow> prefix k s"
  by (induction s k rule: starts_with.induct) auto

lemma includes_str_sublist: "includes_str s k \<longleftrightarrow> sublist k s"
  by (induction s) (simp_all add: sublist_Cons_right starts_with_prefix)

lemma key_of_optional_property:
  "k \<in> set (map fst (if c then [(t, b)] else [])) \<longleftrightarrow> c \<and> k = t"
  by (cases c) auto

lemma detect_cases:
  "k \<in> detect text \<longleftrightarrow>
     ((sublist ''goal'' (toLowerCase text) \<or> sublist ''problem'' (toLowerCase text))
        \<and> k = Framing) \<or>
     ((sublist ''constraint'' (toLowerCase text) \<or> sublist ''limit'' (toLowerCase text))
        \<and> k = Constraints) \<or>
     ((sublist ''user'' (toLowerCase text) \<or> sublist ''persona'' (toLowerCase text))
        \<and> k = Users) \<or>
     ((sublist ''idea'' (toLowerCase text) \<or> sublist ''approach'' (toLowerCase text))
        \<and> k = Ideation) \<or>
     ((sublist ''state'' (toLowerCase text) \<or> sublist ''flow'' (toLowerCase text)
         \<or> sublist ''error'' (toLowerCase text))
        \<and> k = Systems) \<or>
     ((sublist ''metric'' (toLowerCase text) \<or> sublist ''kpi'' (toLowerCase text)
         \<or> sublist ''experiment'' (toLowerCase text))
        \<and> k = Metrics) \<or>
     ((sublist ''accessibility'' (toLowerCase text) \<or> sublist ''wcag'' (toLowerCase text))
        \<and> k = Accessibility)"
  unfolding detect_def Object_keys_def coverage_updates_def Let_def includes_str_sublist
  by (simp only: map_append set_append Un_iff key_of_optional_property)

lemma detect_iff:
  "k \<in> detect text \<longleftrightarrow> (\<exists>kw \<in> set (spec_keywords k). sublist kw (toLowerCase text))"
  unfolding detect_cases by (cases k) simp_all

text \<open>
  Claim C5. For every input, the topics that \<^verbatim>\<open>updateCoverageTags\<close> matches are exactly the
  topics of which some keyword of the fixed table occurs as a substring of the lower-cased
  input; several topics may match, and no match gives the empty set.
\<close>

theorem detect_matches_keyword_table: "detect text = spec_detect text"
  unfolding spec_detect_def using detect_iff by blast

theorem detect_matches_keyword_table_witness:
  "spec_detect ''Our main user is a busy parent'' = {Users}"
proof -
  have "detect ''Our main user is a busy parent'' = {Users}"
    by code_simp
  then show ?thesis
    using detect_matches_keyword_table [of "''Our main user is a busy parent''"] by simp
qed





section \<open>Properties of the coverage state\<close>

lemma get_tag_set_tag: "get_tag (set_tag k' b c) k = (if k = k' then b else get_tag c k)"
  by (cases k; cases k') simp_all

lemma get_tag_spread:
  "\<forall>(k', v) \<in> set ups. v \<Longrightarrow>
     get_tag (spread c ups) k \<longleftrightarrow> get_tag c k \<or> k \<in> set (Object_keys ups)"
  unfolding spread_def Object_keys_def
proof (induction ups arbitrary: c)
  case Nil
  then show ?case by simp
next
  case (Cons u ups)
  obtain k' v where u: "u = (k', v)"
    by (cases u)
  with Cons.prems have v: "v" and rest: "\<forall>(k', v) \<in> set ups. v"
    by auto
  show ?case
    using Cons.IH [OF rest, of "set_tag k' v c"] u v
    by (auto simp: get_tag_set_tag)
qed

lemma coverage_updates_True: "\<forall>(k, v) \<in> set (coverage_updates text). v"
  unfolding coverage_updates_def Let_def by auto

text \<open>Merging is a logical OR per key.\<close>

lemma get_tag_updateCoverageTags:
  "get_tag (updateCoverageTags text c) k \<longleftrightarrow> get_tag c k \<or> k \<in> detect text"
proof (cases "coverage_updates text = []")
  case True
  then show ?thesis
    by (simp add: updateCoverageTags_def detect_def Object_keys_def)
next
  case False
  then show ?thesis
    using get_tag_spread [OF coverage_updates_True, of c "text" k]
    by (simp add: updateCoverageTags_def detect_def Object_keys_def Let_def)
qed

lemma coverageTags_addUserMessage:
  "coverageTags (addUserMessage t s) = updateCoverageTags t (coverageTags s)"
  by (simp add: addUserMessage_def)

lemma get_tag_fold_addUserMessage:
  "get_tag (coverageTags s) k \<Longrightarrow> get_tag (coverageTags (fold addUserMessage texts s)) k"
proof (induction texts arbitrary: s)
  case Nil
  then show ?case by simp
next
  case (Cons t texts)
  have "get_tag (coverageTags (addUserMessage t s)) k"
    using Cons.prems by (simp add: coverageTags_addUserMessage get_tag_updateCoverageTags)
  then show ?case
    using Cons.IH by simp
qed

text \<open>
  Claim C6. For every session state and every sequence of participant turns, a topic flag
  that is true after some of the turns is true after any further turns.
\<close>

theorem coverage_monotonic:
  "get_tag (coverageTags (fold addUserMessage earlier s)) k \<Longrightarrow>
     get_tag (coverageTags (fold addUserMessage (earlier @ later) s)) k"
  by (simp add: get_tag_fold_addUserMessage)

theorem coverage_monotonic_witness:
  "get_tag (coverageTags (fold addUserMessage [''Our main user is a busy parent'']
      \<lparr>transcript = [], coverageTags = initial_coverageTags\<rparr>)) Users
   \<and> get_tag (coverageTags (fold addUserMessage
        ([''Our main user is a busy parent''] @ [''Sync is the hard part''])
        \<lparr>transcript = [], coverageTags = initial_coverageTags\<rparr>)) Users"
proof -
  have h: "get_tag (coverageTags (fold addUserMessage [''Our main user is a busy parent'']
      \<lparr>transcript = [], coverageTags = initial_coverageTags\<rparr>)) Users"
    by code_simp
  show ?thesis
    using h coverage_monotonic [OF h, of "[''Sync is the hard part'']"] by simp
qed

section \<open>Properties of the coach route\<close>

text \<open>
  Claim C1, as amended. A request whose phase or prompt is absent or the empty string, or
  whose transcript is absent, is answered with status 400 and the missing-fields error,
  and no request is sent to the model. A request with a phase, a prompt and an empty
  transcript passes the check: one request is sent to the model.
\<close>

theorem coach_validation:
  "(req_phase b \<in> {None, Some ''''} \<or> req_prompt b \<in> {None, Some ''''}
      \<or> req_transcript b = None
      \<longrightarrow> coach_POST (Inr b) reply =
            ([], Json_response 400
                   (JObj [(''error'',
                           JStr ''Missing required fields: phase, prompt, transcript'')])))
   \<and> (req_phase b \<notin> {None, Some ''''} \<and> req_prompt b \<notin> {None, Some ''''}
      \<and> req_transcript b = Some []
      \<longrightarrow> length (fst (coach_POST (Inr b) reply)) = 1)"
  by (auto simp: coach_POST_def falsy_string_def falsy_array_def Let_def
           split: option.splits sum.splits)

theorem coach_validation_witness:
  "coach_POST
     (Inr \<lparr>req_phase = Some ''Discovery'', req_prompt = Some '''',
           req_transcript = Some [\<lparr>role = ''You'', msg_text = ''Our main user''\<rparr>],
           req_coverageTags = None, req_screenshotCount = None\<rparr>)
     (Inr ''What is the goal?'')
   = ([], Json_response 400
            (JObj [(''error'', JStr ''Missing required fields: phase, prompt, transcript'')]))
   \<and> length (fst (coach_POST (Inr \<lparr>req_phase = Some ''Discovery'', req_prompt = Some ''Design a notes app'',
            req_transcript = Some [], req_coverageTags = Some initial_coverageTags,
            req_screenshotCount = Some 0\<rparr>) (Inr ''What is the goal?''))) = 1"
  using
    coach_validation
      [of "\<lparr>req_phase = Some ''Discovery'', req_prompt = Some '''',
             req_transcript = Some [\<lparr>role = ''You'', msg_text = ''Our main user''\<rparr>],
             req_coverageTags = None, req_screenshotCount = None\<rparr>"
          "Inr ''What is the goal?''"]
    coach_validation [of "\<lparr>req_phase = Some ''Discovery'', req_prompt = Some ''Design a notes app'',
            req_transcript = Some [], req_coverageTags = Some initial_coverageTags,
            req_screenshotCount = Some 0\<rparr>" "Inr ''What is the goal?''"]
  by simp

text \<open>
  Claim C1 as stated fails: with a phase, a prompt and an empty transcript the route sends
  a request to the model and answers with status 200.
\<close>

theorem coach_empty_transcript_counterexample:
  "length (fst (coach_POST (Inr \<lparr>req_phase = Some ''Discovery'', req_prompt = Some ''Design a notes app'',
            req_transcript = Some [], req_coverageTags = Some initial_coverageTags,
            req_screenshotCount = Some 0\<rparr>) (Inr ''What is the goal?''))) = 1
   \<and> status_of (snd (coach_POST (Inr \<lparr>req_phase = Some ''Discovery'', req_prompt = Some ''Design a notes app'',
            req_transcript = Some [], req_coverageTags = Some initial_coverageTags,
            req_screenshotCount = Some 0\<rparr>) (Inr ''What is the goal?''))) = 200"
  by (simp add: coach_POST_def falsy_string_def falsy_array_def Let_def status_of_def)

section \<open>Properties of the speech route\<close>

text \<open>
  Claim C10. A request whose text is the empty string gets the response of a request
  without a text: status 400 with the missing-field error, and no request to the model.
\<close>

theorem tts_empty_text_as_absent:
  "tts_POST (Inr \<lparr>tts_text = Some ''''\<rparr>) reply = tts_POST (Inr \<lparr>tts_text = None\<rparr>) reply'
   \<and> tts_POST (Inr \<lparr>tts_text = None\<rparr>) reply' =
       ([], Json_response 400 (JObj [(''error'', JStr ''Missing required field: text'')]))"
  by (simp add: tts_POST_def falsy_string_def)

section \<open>Properties of the evaluate route\<close>

lemma evaluate_POST_called:
  "req_prompt b \<notin> {None, Some ''''} \<Longrightarrow> req_transcript b = Some t \<Longrightarrow>
     \<exists>request. systemInstruction request = Some evaluate_systemInstruction
       \<and> evaluate_POST parse (Inr b) (Inr raw) =
           ([request],
            case parse raw of
              Some evaluation \<Rightarrow> Json_response 200 evaluation
            | None \<Rightarrow>
                Json_response 200
                  (JObj [(''error'', JStr ''Failed to parse evaluation''),
                         (''raw'', JStr raw)]))"
  by (auto simp: evaluate_POST_def falsy_string_def falsy_array_def Let_def
           split: option.splits)

text \<open>
  Claim C2, as amended. For every reply of the model that \<^verbatim>\<open>JSON.parse\<close> rejects, the
  route answers with the error \<^verbatim>\<open>Failed to parse evaluation\<close> and the raw text of the reply;
  a reply that parses is returned as the result, whatever fields it has.
\<close>

theorem evaluate_unparseable_carries_raw:
  "req_prompt b \<notin> {None, Some ''''} \<Longrightarrow> req_transcript b = Some t \<Longrightarrow>
     (parse raw = None \<longrightarrow>
        snd (evaluate_POST parse (Inr b) (Inr raw)) =
          Json_response 200
            (JObj [(''error'', JStr ''Failed to parse evaluation''), (''raw'', JStr raw)]))
     \<and> (\<forall>v. parse raw = Some v \<longrightarrow>
          snd (evaluate_POST parse (Inr b) (Inr raw)) = Json_response 200 v)"
  using evaluate_POST_called [of b t parse raw] by auto

theorem evaluate_unparseable_carries_raw_witness:
  "spec_ParseError_with_raw ''I could not evaluate this.''
     (snd (evaluate_POST JSON_parse_fragment
        (Inr \<lparr>req_phase = Some ''Presentation'', req_prompt = Some ''Design a notes app'',
              req_transcript =
                Some [\<lparr>role = ''You'', msg_text = ''Our main user is a busy parent''\<rparr>],
              req_coverageTags = None, req_screenshotCount = None\<rparr>)
        (Inr ''I could not evaluate this.'')))"
proof -
  have p: "JSON_parse_fragment ''I could not evaluate this.'' = None"
    by code_simp
  show ?thesis
    using evaluate_unparseable_carries_raw
      [of "\<lparr>req_phase = Some ''Presentation'', req_prompt = Some ''Design a notes app'',
              req_transcript =
                Some [\<lparr>role = ''You'', msg_text = ''Our main user is a busy parent''\<rparr>],
              req_coverageTags = None, req_screenshotCount = None\<rparr>"
          "[\<lparr>role = ''You'', msg_text = ''Our main user is a busy parent''\<rparr>]"
          JSON_parse_fragment "''I could not evaluate this.''"] p
    by (simp add: spec_ParseError_with_raw_def json_field_def)
qed

text \<open>
  Claim C2 as stated fails: a reply that is JSON without a \<^verbatim>\<open>rubric\<close> field is returned
  as the result, with status 200 and neither an error nor the raw text.
\<close>

theorem evaluate_missing_rubric_counterexample:
  \<open>JSON_parse_fragment
      ''{"strengths": ["clear framing"], "weaknesses": ["no metrics"], "drills": [], "narrative": "Solid start"}''
    = Some (JObj [(''strengths'', JArr [JStr ''clear framing'']),
               (''weaknesses'', JArr [JStr ''no metrics'']),
               (''drills'', JArr []),
               (''narrative'', JStr ''Solid start'')])
   \<and> json_field (JObj [(''strengths'', JArr [JStr ''clear framing'']),
               (''weaknesses'', JArr [JStr ''no metrics'']),
               (''drills'', JArr []),
               (''narrative'', JStr ''Solid start'')]) ''rubric'' = None
   \<and> snd (evaluate_POST JSON_parse_fragment
        (Inr \<lparr>req_phase = Some ''Presentation'', req_prompt = Some ''Design a notes app'',
              req_transcript =
                Some [\<lparr>role = ''You'', msg_text = ''Our main user is a busy parent''\<rparr>],
              req_coverageTags = None, req_screenshotCount = None\<rparr>)
        (Inr ''{"strengths": ["clear framing"], "weaknesses": ["no metrics"], "drills": [], "narrative": "Solid start"}''))
    = Json_response 200
        (JObj [(''strengths'', JArr [JStr ''clear framing'']),
               (''weaknesses'', JArr [JStr ''no metrics'']),
               (''drills'', JArr []),
               (''narrative'', JStr ''Solid start'')])
   \<and> \<not> spec_ParseError_with_raw
        ''{"strengths": ["clear framing"], "weaknesses": ["no metrics"], "drills": [], "narrative": "Solid start"}''
        (Json_response 200
          (JObj [(''strengths'', JArr [JStr ''clear framing'']),
               (''weaknesses'', JArr [JStr ''no metrics'']),
               (''drills'', JArr []),
               (''narrative'', JStr ''Solid start'')]))\<close>
  by code_simp

lemma drills_schema_in_instruction:
  \<open>sublist ''"drills": [{"title": string, "time": number, "description": string}]''
     evaluate_systemInstruction\<close>
  unfolding includes_str_sublist [symmetric] by code_simp

text \<open>
  Claim C7, as amended. For every successful evaluation, the result is the JSON value
  parsed from the model's reply, returned unchanged; the schema that the route sends to
  the model describes a drill by the fields \<^verbatim>\<open>title\<close> (string), \<^verbatim>\<open>time\<close> (number) and
  \<^verbatim>\<open>description\<close> (string).
\<close>

theorem evaluate_result_passthrough:
  \<open>req_prompt b \<notin> {None, Some ''''} \<Longrightarrow> req_transcript b = Some t \<Longrightarrow>
   parse raw = Some v \<Longrightarrow>
     snd (evaluate_POST parse (Inr b) (Inr raw)) = Json_response 200 v
     \<and> map systemInstruction (fst (evaluate_POST parse (Inr b) (Inr raw)))
         = [Some evaluate_systemInstruction]
     \<and> sublist ''"drills": [{"title": string, "time": number, "description": string}]''
         evaluate_systemInstruction\<close>
  using evaluate_POST_called [of b t parse raw] drills_schema_in_instruction by auto

theorem evaluate_result_passthrough_witness:
  \<open>snd (evaluate_POST JSON_parse_fragment
        (Inr \<lparr>req_phase = Some ''Presentation'', req_prompt = Some ''Design a notes app'',
              req_transcript =
                Some [\<lparr>role = ''You'', msg_text = ''Our main user is a busy parent''\<rparr>],
              req_coverageTags = None, req_screenshotCount = None\<rparr>)
        (Inr ''{"drills": [{"title": "Metric ladder", "time": 10, "description": "Name one metric per goal"}]}''))
    = Json_response 200
        (JObj [(''drills'',
                JArr [JObj [(''title'', JStr ''Metric ladder''), (''time'', JNum 10),
                            (''description'', JStr ''Name one metric per goal'')]])])\<close>
proof -
  have p: \<open>JSON_parse_fragment
      ''{"drills": [{"title": "Metric ladder", "time": 10, "description": "Name one metric per goal"}]}''
    = Some (JObj [(''drills'',
                JArr [JObj [(''title'', JStr ''Metric ladder''), (''time'', JNum 10),
                            (''description'', JStr ''Name one metric per goal'')]])])\<close>
    by code_simp
  show ?thesis
    using evaluate_result_passthrough
      [of \<open>\<lparr>req_phase = Some ''Presentation'', req_prompt = Some ''Design a notes app'',
              req_transcript =
                Some [\<lparr>role = ''You'', msg_text = ''Our main user is a busy parent''\<rparr>],
              req_coverageTags = None, req_screenshotCount = None\<rparr>\<close>
          \<open>[\<lparr>role = ''You'', msg_text = ''Our main user is a busy parent''\<rparr>]\<close>
          JSON_parse_fragment _ _, OF _ _ p]
    by simp
qed

text \<open>
  Claim C7 as stated fails: a reply that follows the route's schema is a successful
  result whose drill has the field \<^verbatim>\<open>time\<close> and no field \<^verbatim>\<open>minutes\<close>.
\<close>

theorem evaluate_drill_fields_counterexample:
  \<open>snd (evaluate_POST JSON_parse_fragment
        (Inr \<lparr>req_phase = Some ''Presentation'', req_prompt = Some ''Design a notes app'',
              req_transcript =
                Some [\<lparr>role = ''You'', msg_text = ''Our main user is a busy parent''\<rparr>],
              req_coverageTags = None, req_screenshotCount = None\<rparr>)
        (Inr ''{"rubric": {"problem_framing": 3, "idea_breadth": 2, "systems_thinking": 3, "prioritization": 3, "metrics_discipline": 1, "communication": 4, "velocity_with_rigor": 3}, "strengths": ["clear framing"], "weaknesses": ["no metrics"], "drills": [{"title": "Metric ladder", "time": 10, "description": "Name one metric per goal"}], "narrative": "Solid start"}''))
    = Json_response 200
        (JObj [(''rubric'',
                JObj [(''problem_framing'', JNum 3), (''idea_breadth'', JNum 2),
                      (''systems_thinking'', JNum 3), (''prioritization'', JNum 3),
                      (''metrics_discipline'', JNum 1), (''communication'', JNum 4),
                      (''velocity_with_rigor'', JNum 3)]),
               (''strengths'', JArr [JStr ''clear framing'']),
               (''weaknesses'', JArr [JStr ''no metrics'']),
               (''drills'',
                JArr [JObj [(''title'', JStr ''Metric ladder''), (''time'', JNum 10),
                            (''description'', JStr ''Name one metric per goal'')]]),
               (''narrative'', JStr ''Solid start'')])
   \<and> \<not> spec_drills
        (JObj [(''rubric'',
                JObj [(''problem_framing'', JNum 3), (''idea_breadth'', JNum 2),
                      (''systems_thinking'', JNum 3), (''prioritization'', JNum 3),
                      (''metrics_discipline'', JNum 1), (''communication'', JNum 4),
                      (''velocity_with_rigor'', JNum 3)]),
               (''strengths'', JArr [JStr ''clear framing'']),
               (''weaknesses'', JArr [JStr ''no metrics'']),
               (''drills'',
                JArr [JObj [(''title'', JStr ''Metric ladder''), (''time'', JNum 10),
                            (''description'', JStr ''Name one metric per goal'')]]),
               (''narrative'', JStr ''Solid start'')])\<close>
  by code_simp

section \<open>Properties of the playback controller\<close>

lemma superseded_step: "superseded u s \<Longrightarrow> superseded u (playback_step e s)"
proof (cases e)
  case Speak
  assume "superseded u s"
  then show ?thesis
    using Speak by (auto simp: superseded_def speakText_call_def split: option.splits)
next
  case (Fetch_done r)
  assume "superseded u s"
  then show ?thesis
    using Fetch_done
    by (cases r)
      (auto simp: superseded_def speakText_resume_def speakText_catch_def Let_def
            split: option.splits)
next
  case Play_rejected
  assume "superseded u s"
  then show ?thesis
    using Play_rejected by (auto simp: superseded_def speakText_catch_def split: option.splits)
next
  case Audio_ended
  assume "superseded u s"
  then show ?thesis
    using Audio_ended by (auto simp: superseded_def audio_ended_def split: option.splits)
qed

lemma superseded_run: "superseded u s \<Longrightarrow> superseded u (playback_run es s)"
  unfolding playback_run_def
  by (induction es arbitrary: s) (simp_all add: superseded_step)

lemma superseded_after_second_speak:
  "superseded 0 (playback_run
      [Speak, Fetch_done (Fetch_response True), Speak, Fetch_done (Fetch_response True)]
      initial_playback)"
  by code_simp

lemma playback_run_append:
  "playback_run (es @ es') s = playback_run es' (playback_run es s)"
  by (simp add: playback_run_def)

text \<open>
  Claim C9 fails on the code. When a second \<^verbatim>\<open>speakText\<close> receives its audio before the
  first playback has ended, two object URLs are live, and whatever happens afterwards the
  first one is never revoked: the handler that would revoke it has been replaced.
\<close>

theorem playback_superseded_url_leaks:
  "object_urls (playback_run
      [Speak, Fetch_done (Fetch_response True), Speak, Fetch_done (Fetch_response True)]
      initial_playback) = [0, 1]
   \<and> (\<forall>es. 0 \<in> set (object_urls (playback_run
      ([Speak, Fetch_done (Fetch_response True), Speak, Fetch_done (Fetch_response True)]
         @ es)
      initial_playback)))"
proof -
  have "object_urls (playback_run
      [Speak, Fetch_done (Fetch_response True), Speak, Fetch_done (Fetch_response True)]
      initial_playback) = [0, 1]"
    by code_simp
  moreover have "0 \<in> set (object_urls (playback_run
      ([Speak, Fetch_done (Fetch_response True), Speak, Fetch_done (Fetch_response True)]
         @ es)
      initial_playback))" for es
    using superseded_run [OF superseded_after_second_speak, of es]
    unfolding playback_run_append by (simp add: superseded_def)
  ultimately show ?thesis
    by blast
qed

end
